theory Spec2Isabelle
  imports Complex_Main
begin

section \<open>JavaScript numbers\<close>

text \<open>
  The grid engine computes with JavaScript numbers, which are IEEE 754 doubles. The
  pixel quantities of a grid specification (rows, columns, canvas size, padding, border
  width, corner radius) are integers, and are modelled as \<open>int\<close>: sums, differences and
  products of integers, and the floor or ceiling of a quotient of two integers, are
  exact in doubles as long as the values stay below \<open>2 ^ 53\<close>, which pixel sizes do.

  Every other number is a double, modelled as the rational it denotes, and every other
  operation rounds its exact result to the nearest double, a tie to the one with the
  even significand: \<open>fl\<close> below. A double has a significand of 53 bits; below
  \<open>2 ^ - 1022\<close> the spacing stays \<open>2 ^ - 1074\<close>. Overflow to \<open>Infinity\<close>, \<open>NaN\<close> and
  the sign of zero are not modelled; no value of the engine comes near them.

  A division by zero does not raise in JavaScript: it yields \<open>Infinity\<close> or \<open>NaN\<close>, and
  the program carries on with that value. The model does not follow such executions: a
  function whose source divides by zero returns \<open>None\<close>, which therefore says nothing
  about what the source returns there.
\<close>

text \<open>The number of binary digits of a positive integer.\<close>

function bitLength :: "int \<Rightarrow> int" where
  "bitLength n = (if n \<le> 0 then 0 else bitLength (n div 2) + 1)"
  by pat_completeness auto
termination
  by (relation "measure nat") auto

declare bitLength.simps [simp del]

text \<open>The \<open>e\<close> with \<open>2 ^ e \<le> \<bar>x\<bar> < 2 ^ (e + 1)\<close>, for \<open>x\<close> other than 0.\<close>

definition binaryExponent :: "rat \<Rightarrow> int" where
  "binaryExponent x =
     (let (p, q) = quotient_of x;
          k = bitLength \<bar>p\<bar> - bitLength q
      in if 2 powi k \<le> \<bar>x\<bar> then k else k - 1)"

definition roundHalfEven :: "rat \<Rightarrow> int" where
  "roundHalfEven m =
     (let f = \<lfloor>m\<rfloor>; d = m - of_int f
      in if d < 1 / 2 then f else if 1 / 2 < d then f + 1 else if even f then f else f + 1)"

text \<open>The double nearest to \<open>x\<close>: the result of an operation whose exact result is \<open>x\<close>.\<close>

definition fl :: "rat \<Rightarrow> rat" where
  "fl x =
     (if x = 0 then 0
      else let e = max (binaryExponent x - 52) (- 1074)
           in of_int (roundHalfEven (x / 2 powi e)) * 2 powi e)"

definition Math_floor :: "rat \<Rightarrow> int" where
  "Math_floor q = \<lfloor>q\<rfloor>"

definition Math_ceil :: "rat \<Rightarrow> int" where
  "Math_ceil q = \<lceil>q\<rceil>"

text \<open>
  \<open>Math.round\<close> rounds a double to the nearest integer, a tie towards plus infinity; it
  is exact on the double it is given.
\<close>

definition Math_round :: "rat \<Rightarrow> int" where
  "Math_round q = \<lfloor>q + 1 / 2\<rfloor>"

text \<open>The remainder operator \<open>%\<close> truncates: its result has the sign of the dividend.\<close>

definition js_rem :: "int \<Rightarrow> int \<Rightarrow> int" where
  "js_rem a b = sgn a * (\<bar>a\<bar> mod \<bar>b\<bar>)"

section \<open>Layout calculator (\<open>src/lib/grid.ts\<close>)\<close>

datatype ImageFit = Cover | Contain | Fill

record GridOptions =
  rows :: int
  cols :: int
  width :: int
  height :: int
  padding :: int
  backgroundColor :: string
  borderWidth :: int
  borderColor :: string
  cornerRadius :: int
  imageFit :: ImageFit

record Dimensions =
  d_width :: int
  d_height :: int
  d_rows :: int
  d_cols :: int

record CellPosition =
  pos_x :: int
  pos_y :: int
  pos_width :: int
  pos_height :: int

definition calculateActualRows :: "nat \<Rightarrow> int \<Rightarrow> int option" where
  "calculateActualRows imageCount c =
     (if c = 0 then None else Some (Math_ceil (of_nat imageCount / of_int c)))"

definition calculateActualDimensions :: "GridOptions \<Rightarrow> nat \<Rightarrow> Dimensions option" where
  "calculateActualDimensions options imageCount =
     (case calculateActualRows imageCount (cols options) of
        None \<Rightarrow> None
      | Some actualRows \<Rightarrow>
          if rows options = 0 then None
          else
            let totalPaddingX = padding options * (cols options + 1);
                totalBorderX = borderWidth options * cols options * 2;
                availableWidth = width options - totalPaddingX - totalBorderX;
                cellWidth = Math_floor (of_int availableWidth / of_int (cols options));
                originalRows = rows options;
                totalPaddingYOriginal = padding options * (originalRows + 1);
                totalBorderYOriginal = borderWidth options * originalRows * 2;
                availableHeightOriginal =
                  height options - totalPaddingYOriginal - totalBorderYOriginal;
                cellHeight = Math_floor (of_int availableHeightOriginal / of_int originalRows);
                totalPaddingY = padding options * (actualRows + 1);
                totalBorderY = borderWidth options * actualRows * 2;
                actualHeight = totalPaddingY + totalBorderY + cellHeight * actualRows
            in Some \<lparr>d_width = width options, d_height = actualHeight,
                       d_rows = actualRows, d_cols = cols options\<rparr>)"

text \<open>
  The loop of \<open>calculateCellPositions\<close>: \<open>i\<close> runs from its start value up to the image
  count, an index whose row is not below \<open>actualRows\<close> is skipped (\<open>continue\<close>), every
  other index appends one cell.
\<close>

function positionsLoop ::
  "GridOptions \<Rightarrow> int \<Rightarrow> int \<Rightarrow> int \<Rightarrow> nat \<Rightarrow> nat \<Rightarrow> CellPosition list \<Rightarrow> CellPosition list"
where
  "positionsLoop options actualRows finalCellWidth finalCellHeight effectiveImageCount i positions =
     (if i < effectiveImageCount then
        let row = Math_floor (of_nat i / of_int (cols options));
            col = js_rem (int i) (cols options)
        in
          if row \<ge> actualRows then
            positionsLoop options actualRows finalCellWidth finalCellHeight
              effectiveImageCount (Suc i) positions
          else
            let x = padding options + borderWidth options
                      + col * (finalCellWidth + borderWidth options * 2 + padding options);
                y = padding options + borderWidth options
                      + row * (finalCellHeight + borderWidth options * 2 + padding options)
            in positionsLoop options actualRows finalCellWidth finalCellHeight
                 effectiveImageCount (Suc i)
                 (positions @ [\<lparr>pos_x = Math_round (of_int x), pos_y = Math_round (of_int y),
                                 pos_width = finalCellWidth, pos_height = finalCellHeight\<rparr>])
      else positions)"
  by pat_completeness auto
termination
  by (relation "measure (\<lambda>(options, actualRows, w, h, n, i, positions). n - i)") auto

declare positionsLoop.simps [simp del]

definition calculateCellPositions :: "GridOptions \<Rightarrow> nat \<Rightarrow> CellPosition list option" where
  "calculateCellPositions options imageCount =
     (case calculateActualRows imageCount (cols options) of
        None \<Rightarrow> None
      | Some actualRows \<Rightarrow>
          if rows options = 0 then None
          else
            let effectiveImageCount = imageCount;
                totalPaddingX = padding options * (cols options + 1);
                totalBorderX = borderWidth options * cols options * 2;
                availableWidth = width options - totalPaddingX - totalBorderX;
                cellWidth = Math_floor (of_int availableWidth / of_int (cols options));
                originalRows = rows options;
                totalPaddingYOriginal = padding options * (originalRows + 1);
                totalBorderYOriginal = borderWidth options * originalRows * 2;
                availableHeightOriginal =
                  height options - totalPaddingYOriginal - totalBorderYOriginal;
                cellHeight = Math_floor (of_int availableHeightOriginal / of_int originalRows);
                finalCellWidth = max 1 cellWidth;
                finalCellHeight = max 1 cellHeight
            in Some (positionsLoop options actualRows finalCellWidth finalCellHeight
                       effectiveImageCount 0 []))"

section \<open>Colours (\<open>src/lib/utils.ts\<close>)\<close>

record Rgb =
  rgb_r :: nat
  rgb_g :: nat
  rgb_b :: nat

text \<open>The character class \<open>[a-f\d]\<close> under the flag \<open>i\<close>, with the value \<open>parseInt\<close> gives it.\<close>

definition hexValue :: "char \<Rightarrow> nat option" where
  "hexValue c = map_of
     [(CHR ''0'', 0), (CHR ''1'', 1), (CHR ''2'', 2), (CHR ''3'', 3), (CHR ''4'', 4),
      (CHR ''5'', 5), (CHR ''6'', 6), (CHR ''7'', 7), (CHR ''8'', 8), (CHR ''9'', 9),
      (CHR ''a'', 10), (CHR ''b'', 11), (CHR ''c'', 12), (CHR ''d'', 13), (CHR ''e'', 14),
      (CHR ''f'', 15), (CHR ''A'', 10), (CHR ''B'', 11), (CHR ''C'', 12), (CHR ''D'', 13),
      (CHR ''E'', 14), (CHR ''F'', 15)] c"

text \<open>One capture group of the pattern: two hexadecimal digits, read in base 16.\<close>

definition hexPair :: "char \<Rightarrow> char \<Rightarrow> nat option" where
  "hexPair hi lo =
     (case (hexValue hi, hexValue lo) of
        (Some h, Some l) \<Rightarrow> Some (16 * h + l)
      | _ \<Rightarrow> None)"

text \<open>
  \<open>hexToRgb\<close> matches \<open>/^#?([a-f\d]{2})([a-f\d]{2})([a-f\d]{2})$/i\<close>: an optional
  \<open>#\<close>, then exactly six hexadecimal digits, and nothing else. Without a match it
  returns \<open>null\<close>.
\<close>

definition hexToRgb :: "string \<Rightarrow> Rgb option" where
  "hexToRgb hex =
     (case (case hex of c # rest \<Rightarrow> if c = CHR ''#'' then rest else hex | [] \<Rightarrow> hex) of
        [r1, r2, g1, g2, b1, b2] \<Rightarrow>
          (case (hexPair r1 r2, hexPair g1 g2, hexPair b1 b2) of
             (Some r, Some g, Some b) \<Rightarrow> Some \<lparr>rgb_r = r, rgb_g = g, rgb_b = b\<rparr>
           | _ \<Rightarrow> None)
      | _ \<Rightarrow> None)"

section \<open>The image library\<close>

text \<open>
  The pixels are the work of the image library \<open>sharp\<close>, which is not part of the
  repository. A buffer is modelled by what the library finds in it: an image of some
  pixel size, or bytes that it cannot decode, with the message that the library reports
  for them (such as \<open>Input buffer contains unsupported image format\<close>). The results of the grid builders are
  modelled as the pipelines they hand to the library: which canvas is created, which
  inputs are resized to which size, and what is composited where, in which order.

  Of the library's behaviour two facts are assumed. Reading an undecodable buffer
  (\<open>metadata()\<close>, or \<open>toBuffer()\<close> after \<open>resize\<close>) rejects with the library's own
  \<open>Error\<close>, which holds a message and nothing else. A canvas made with \<open>create\<close>, and
  an SVG document rendered to PNG, have the width and height they declare.

  Other rejections of the library (of a canvas without pixels, of a resize to zero
  pixels) are not modelled: a result \<open>Inr\<close> is the pipeline that the code requests, and
  the library carries it out only when every size in it is at least one pixel.
\<close>

datatype Buffer = ImageData (pixelWidth: nat) (pixelHeight: nat) | Undecodable (message: string)

datatype error = Error string

definition sharp_decode :: "Buffer \<Rightarrow> error + nat \<times> nat" where
  "sharp_decode b =
     (case b of
        ImageData w h \<Rightarrow> Inr (w, h)
      | Undecodable msg \<Rightarrow> Inl (Error msg))"

record GridImage =
  buffer :: Buffer
  order :: int

section \<open>Cell fitter and cell framer (\<open>src/lib/grid.ts\<close>)\<close>

text \<open>
  The image of one cell, as \<open>applyRoundedCorners\<close> builds it. For \<open>contain\<close> the source
  is resized to \<open>newWidth\<close> by \<open>newHeight\<close> and composited at \<open>(left, top)\<close> onto a new
  canvas of the cell's size whose background has alpha 0; otherwise it is resized to the
  cell's size with the library's fit of the same name.
\<close>

datatype FittedImage =
    ContainFit (canvasWidth: int) (canvasHeight: int) (canvasAlpha: nat)
      (newWidth: int) (newHeight: int) (offsetLeft: int) (offsetTop: int)
  | ResizeFit (fit: ImageFit) (fitWidth: int) (fitHeight: int)

record RoundedMask =
  mask_width :: int
  mask_height :: int
  mask_radius :: int

record ProcessedImage =
  source :: Buffer
  fitted :: FittedImage
  mask :: "RoundedMask option"

definition createRoundedMask :: "int \<Rightarrow> int \<Rightarrow> int \<Rightarrow> RoundedMask" where
  "createRoundedMask w h radius = \<lparr>mask_width = w, mask_height = h, mask_radius = radius\<rparr>"

definition applyRoundedCorners ::
  "Buffer \<Rightarrow> int \<Rightarrow> int \<Rightarrow> int \<Rightarrow> ImageFit \<Rightarrow> error + ProcessedImage"
where
  "applyRoundedCorners imageBuffer w h radius imageFit' =
     (case
        (if imageFit' = Contain then
           (case sharp_decode imageBuffer of
              Inl e \<Rightarrow> Inl e
            | Inr (metadataWidth, metadataHeight) \<Rightarrow>
                let imgWidth = (if metadataWidth = 0 then 1 else metadataWidth);
                    imgHeight = (if metadataHeight = 0 then 1 else metadataHeight);
                    scale = min (fl (of_int w / of_nat imgWidth))
                                (fl (of_int h / of_nat imgHeight));
                    newWidth = Math_round (fl (of_nat imgWidth * scale));
                    newHeight = Math_round (fl (of_nat imgHeight * scale))
                in Inr (ContainFit w h 0 newWidth newHeight
                          (Math_round (fl (of_int (w - newWidth) / 2)))
                          (Math_round (fl (of_int (h - newHeight) / 2)))))
         else
           (case sharp_decode imageBuffer of
              Inl e \<Rightarrow> Inl e
            | Inr _ \<Rightarrow> Inr (ResizeFit imageFit' w h)))
      of
        Inl e \<Rightarrow> Inl e
      | Inr resizedImage \<Rightarrow>
          if radius \<le> 0 then Inr \<lparr>source = imageBuffer, fitted = resizedImage, mask = None\<rparr>
          else Inr \<lparr>source = imageBuffer, fitted = resizedImage,
                    mask = Some (createRoundedMask w h radius)\<rparr>)"

text \<open>
  The border of one cell: an SVG document of \<open>totalWidth\<close> by \<open>totalHeight\<close> holding one
  stroked rectangle, rendered to PNG.
\<close>

datatype Paint = Named string | RgbPaint nat nat nat | RgbaPaint nat nat nat rat | NoPaint

record BorderOverlay =
  border_totalWidth :: int
  border_totalHeight :: int
  border_rectX :: rat
  border_rectY :: rat
  border_rectWidth :: int
  border_rectHeight :: int
  border_radius :: int
  border_stroke :: Paint
  border_strokeWidth :: int

definition createCellBorder ::
  "int \<Rightarrow> int \<Rightarrow> int \<Rightarrow> string \<Rightarrow> int \<Rightarrow> BorderOverlay option"
where
  "createCellBorder cellWidth cellHeight borderWidth' borderColor' cornerRadius' =
     (if borderWidth' \<le> 0 then None
      else
        let color = (case hexToRgb borderColor' of
                       Some rgb \<Rightarrow> RgbPaint (rgb_r rgb) (rgb_g rgb) (rgb_b rgb)
                     | None \<Rightarrow> Named borderColor');
            totalWidth = cellWidth + borderWidth' * 2;
            totalHeight = cellHeight + borderWidth' * 2
        in Some \<lparr>border_totalWidth = totalWidth, border_totalHeight = totalHeight,
                  border_rectX = fl (of_int borderWidth' / 2),
                  border_rectY = fl (of_int borderWidth' / 2),
                  border_rectWidth = totalWidth - borderWidth',
                  border_rectHeight = totalHeight - borderWidth',
                  border_radius = cornerRadius', border_stroke = color,
                  border_strokeWidth = borderWidth'\<rparr>)"

section \<open>Raster compositor (\<open>src/lib/grid.ts\<close>)\<close>

record Background =
  bg_r :: nat
  bg_g :: nat
  bg_b :: nat
  bg_alpha :: nat

datatype OverlayInput = CellImage ProcessedImage | CellBorder BorderOverlay

record Composite =
  comp_input :: OverlayInput
  comp_left :: int
  comp_top :: int

text \<open>
  The raster grid: the canvas that \<open>buildGrid\<close> creates and the overlays it composites
  onto it, first to last.
\<close>

record RasterGrid =
  canvas_width :: int
  canvas_height :: int
  canvas_background :: Background
  composites :: "Composite list"

text \<open>
  The loop of \<open>buildGrid\<close> over the sorted images. An index without a position is
  skipped (\<open>continue\<close>); a rejected promise of the cell fitter leaves the loop with the
  error. The two lists are \<open>imageComposites\<close> and \<open>borderComposites\<close>.
\<close>

function gridLoop ::
  "GridImage list \<Rightarrow> CellPosition list \<Rightarrow> GridOptions \<Rightarrow> nat \<Rightarrow>
   Composite list \<Rightarrow> Composite list \<Rightarrow> error + Composite list \<times> Composite list"
where
  "gridLoop sortedImages positions options i imageComposites borderComposites =
     (if i < length sortedImages then
        if \<not> i < length positions then
          gridLoop sortedImages positions options (Suc i) imageComposites borderComposites
        else
          let image = sortedImages ! i;
              position = positions ! i;
              posX = Math_round (of_int (pos_x position));
              posY = Math_round (of_int (pos_y position));
              cellWidth = Math_round (of_int (pos_width position));
              cellHeight = Math_round (of_int (pos_height position))
          in
            case applyRoundedCorners (buffer image) cellWidth cellHeight
                   (cornerRadius options) (imageFit options) of
              Inl e \<Rightarrow> Inl e
            | Inr processedImage \<Rightarrow>
                let imageComposites' = imageComposites @
                      [\<lparr>comp_input = CellImage processedImage,
                        comp_left = posX, comp_top = posY\<rparr>]
                in
                  if borderWidth options > 0 then
                    (case createCellBorder cellWidth cellHeight (borderWidth options)
                            (borderColor options) (cornerRadius options) of
                       Some border \<Rightarrow>
                         gridLoop sortedImages positions options (Suc i) imageComposites'
                           (borderComposites @
                              [\<lparr>comp_input = CellBorder border,
                                comp_left = posX - borderWidth options,
                                comp_top = posY - borderWidth options\<rparr>])
                     | None \<Rightarrow>
                         gridLoop sortedImages positions options (Suc i) imageComposites'
                           borderComposites)
                  else
                    gridLoop sortedImages positions options (Suc i) imageComposites'
                      borderComposites
      else Inr (imageComposites, borderComposites))"
  by pat_completeness auto
termination
  by (relation "measure (\<lambda>(sortedImages, positions, options, i, ics, bcs).
                           length sortedImages - i)") auto

declare gridLoop.simps [simp del]

definition buildGrid :: "GridImage list \<Rightarrow> GridOptions \<Rightarrow> (error + RasterGrid) option" where
  "buildGrid images options =
     (let sortedImages = sort_key order images in
      case calculateActualDimensions options (length sortedImages) of
        None \<Rightarrow> None
      | Some actualDimensions \<Rightarrow>
          let canvasWidth = d_width actualDimensions;
              canvasHeight = d_height actualDimensions;
              adjustedOptions = options\<lparr>rows := d_rows actualDimensions, height := canvasHeight\<rparr>
          in
            case calculateCellPositions adjustedOptions (length sortedImages) of
              None \<Rightarrow> None
            | Some positions \<Rightarrow>
                let bgRgb = hexToRgb (backgroundColor options);
                    background =
                      (case bgRgb of
                         Some c \<Rightarrow> \<lparr>bg_r = rgb_r c, bg_g = rgb_g c, bg_b = rgb_b c, bg_alpha = 1\<rparr>
                       | None \<Rightarrow> \<lparr>bg_r = 255, bg_g = 255, bg_b = 255, bg_alpha = 1\<rparr>)
                in
                  Some
                    (case gridLoop sortedImages positions options 0 [] [] of
                       Inl e \<Rightarrow> Inl e
                     | Inr (imageComposites, borderComposites) \<Rightarrow>
                         let allComposites = imageComposites @ borderComposites
                         in Inr \<lparr>canvas_width = canvasWidth, canvas_height = canvasHeight,
                                  canvas_background = background,
                                  composites = allComposites\<rparr>))"

section \<open>Text overlays (\<open>src/lib/textOverlay.ts\<close>)\<close>

datatype TextAlign = Left | Center | Right

datatype FontWeight = Normal | Bold

datatype FontFamily =
  Arial | Helvetica | Georgia | TimesNewRoman | CourierNew | Verdana | Impact

record Shadow =
  shadow_color :: string
  shadow_blur :: rat
  shadow_offsetX :: rat
  shadow_offsetY :: rat

record Stroke =
  stroke_color :: string
  stroke_width :: rat

record TextOverlay =
  ov_id :: string
  ov_text :: string
  ov_x :: rat
  ov_y :: rat
  ov_fontFamily :: FontFamily
  ov_fontSize :: rat
  ov_fontWeight :: FontWeight
  ov_color :: string
  ov_align :: TextAlign
  ov_shadow :: "Shadow option"
  ov_stroke :: "Stroke option"

text \<open>One \<open><text>\<close> element of the markup, by its attributes.\<close>

record TextElement =
  text_x :: rat
  text_y :: rat
  text_fontFamily :: string
  text_fontSize :: rat
  text_fontWeight :: FontWeight
  text_fill :: Paint
  text_stroke :: "Stroke option"
  text_anchor :: string
  text_filter :: "string option"
  text_content :: string

text \<open>\<open>s.replace(/c/g, r)\<close> for a single character \<open>c\<close>.\<close>

definition replaceAll :: "char \<Rightarrow> string \<Rightarrow> string \<Rightarrow> string" where
  "replaceAll c r s = concat (map (\<lambda>d. if d = c then r else [d]) s)"

definition escapeXml :: "string \<Rightarrow> string" where
  "escapeXml t =
     replaceAll (CHR 0x27) ''&apos;''
       (replaceAll (CHR 0x22) ''&quot;''
          (replaceAll (CHR ''>'') ''&gt;''
             (replaceAll (CHR ''<'') ''&lt;''
                (replaceAll (CHR ''&'') ''&amp;'' t))))"

text \<open>
  \<open>mapFontFamily\<close> looks the name up in a table of the seven names of the type
  \<open>FontFamily\<close>; its default for a name without an entry is not reached by a value of
  that type.
\<close>

definition mapFontFamily :: "FontFamily \<Rightarrow> string" where
  "mapFontFamily fontFamily =
     (case fontFamily of
        Arial \<Rightarrow> ''Arial, sans-serif''
      | Helvetica \<Rightarrow> ''Helvetica, Arial, sans-serif''
      | Georgia \<Rightarrow> ''Georgia, serif''
      | TimesNewRoman \<Rightarrow> ''Times New Roman, Times, serif''
      | CourierNew \<Rightarrow> ''Courier New, Courier, monospace''
      | Verdana \<Rightarrow> ''Verdana, sans-serif''
      | Impact \<Rightarrow> ''Impact, sans-serif'')"

text \<open>
  \<open>createTextSvgElement\<close> returns the markup of one overlay: the shadow text (when a
  shadow is configured), the stroke text (when a stroke of positive width is), and the
  main text, in this order.
\<close>

definition createTextSvgElement :: "TextOverlay \<Rightarrow> int \<Rightarrow> int \<Rightarrow> TextElement list" where
  "createTextSvgElement overlay w h =
     (let absX = Math_round (fl (ov_x overlay * of_int w));
          absY = Math_round (fl (ov_y overlay * of_int h));
          textAnchor = (if ov_align overlay = Center then ''middle''
                        else if ov_align overlay = Right then ''end'' else ''start'');
          alignedX = absX;
          escapedText = escapeXml (ov_text overlay);
          mappedFont = mapFontFamily (ov_fontFamily overlay);
          shadowElements =
            (case ov_shadow overlay of
               None \<Rightarrow> []
             | Some shadow \<Rightarrow>
                 let shadowColor =
                       (case hexToRgb (shadow_color shadow) of
                          Some rgb \<Rightarrow> RgbaPaint (rgb_r rgb) (rgb_g rgb) (rgb_b rgb) (1 / 2)
                        | None \<Rightarrow> Named (shadow_color shadow))
                 in [\<lparr>text_x = fl (of_int alignedX + shadow_offsetX shadow),
                       text_y = fl (of_int absY + shadow_offsetY shadow),
                       text_fontFamily = mappedFont, text_fontSize = ov_fontSize overlay,
                       text_fontWeight = ov_fontWeight overlay, text_fill = shadowColor,
                       text_stroke = None, text_anchor = textAnchor,
                       text_filter = Some ''url(#shadow-blur)'',
                       text_content = escapedText\<rparr>]);
          strokeElements =
            (case ov_stroke overlay of
               None \<Rightarrow> []
             | Some stroke \<Rightarrow>
                 if stroke_width stroke > 0 then
                   [\<lparr>text_x = of_int alignedX, text_y = of_int absY,
                      text_fontFamily = mappedFont, text_fontSize = ov_fontSize overlay,
                      text_fontWeight = ov_fontWeight overlay, text_fill = NoPaint,
                      text_stroke = Some stroke, text_anchor = textAnchor,
                      text_filter = None, text_content = escapedText\<rparr>]
                 else [])
      in shadowElements @ strokeElements @
         [\<lparr>text_x = of_int alignedX, text_y = of_int absY,
            text_fontFamily = mappedFont, text_fontSize = ov_fontSize overlay,
            text_fontWeight = ov_fontWeight overlay, text_fill = Named (ov_color overlay),
            text_stroke = None, text_anchor = textAnchor,
            text_filter = None, text_content = escapedText\<rparr>])"

section \<open>Vector assembler (\<open>src/lib/grid.ts\<close>)\<close>

text \<open>
  The bitmap embedded in an \<open><image>\<close> element: the source resized to the given size,
  with the library's fit \<open>inside\<close> for \<open>contain\<close> and the fit of the options' name
  otherwise.
\<close>

datatype SharpFit = FitInside | FitOf ImageFit

record EmbeddedImage =
  emb_source :: Buffer
  emb_width :: int
  emb_height :: int
  emb_fit :: SharpFit

text \<open>
  \<open>buildGridSvg\<close> builds the document by appending to one string. The model keeps the
  appended pieces apart, first to last, each with the values its template interpolates:
  the opening \<open><svg>\<close> tag with its width and height, \<open><defs>\<close>, the background
  \<open><rect>\<close>, per cell a \<open><clipPath>\<close> (numbered by the cell's index), an \<open><image>\<close>
  and a border \<open><rect>\<close>, \<open></defs>\<close>, the markup of each text overlay, and
  \<open></svg>\<close>.
\<close>

datatype SvgPiece =
    SvgOpen int int
  | DefsOpen
  | BackgroundRect int int string
  | ClipPath nat int int int int int
  | ImageElement rat rat int int EmbeddedImage "nat option"
  | BorderRect rat rat int int rat string int
  | DefsClose
  | TextMarkup "TextElement list"
  | SvgClose

function svgLoop ::
  "GridImage list \<Rightarrow> CellPosition list \<Rightarrow> GridOptions \<Rightarrow> nat \<Rightarrow>
   SvgPiece list \<Rightarrow> error + SvgPiece list"
where
  "svgLoop sortedImages positions options i svg =
     (if i < length sortedImages then
        if \<not> i < length positions then
          svgLoop sortedImages positions options (Suc i) svg
        else
          let image = sortedImages ! i;
              position = positions ! i;
              posX = Math_round (of_int (pos_x position));
              posY = Math_round (of_int (pos_y position));
              cellWidth = Math_round (of_int (pos_width position));
              cellHeight = Math_round (of_int (pos_height position));
              clipId = i;
              svg1 = (if cornerRadius options > 0
                      then svg @ [ClipPath clipId posX posY cellWidth cellHeight
                                    (cornerRadius options)]
                      else svg);
              clipAttr = (if cornerRadius options > 0 then Some clipId else None)
          in
            case
              (if imageFit options = Contain then
                 (case sharp_decode (buffer image) of
                    Inl e \<Rightarrow> Inl e
                  | Inr (metadataWidth, metadataHeight) \<Rightarrow>
                      let imgWidth = (if metadataWidth = 0 then 1 else metadataWidth);
                          imgHeight = (if metadataHeight = 0 then 1 else metadataHeight);
                          scale = min (fl (of_int cellWidth / of_nat imgWidth))
                                      (fl (of_int cellHeight / of_nat imgHeight));
                          newWidth = Math_round (fl (of_nat imgWidth * scale));
                          newHeight = Math_round (fl (of_nat imgHeight * scale));
                          resized = \<lparr>emb_source = buffer image, emb_width = newWidth,
                                      emb_height = newHeight, emb_fit = FitInside\<rparr>;
                          offsetX = fl (of_int (cellWidth - newWidth) / 2);
                          offsetY = fl (of_int (cellHeight - newHeight) / 2)
                      in Inr (svg1 @ [ImageElement (fl (of_int posX + offsetX))
                                        (fl (of_int posY + offsetY)) newWidth newHeight
                                        resized clipAttr]))
               else
                 (case sharp_decode (buffer image) of
                    Inl e \<Rightarrow> Inl e
                  | Inr _ \<Rightarrow>
                      let processedBuffer =
                            \<lparr>emb_source = buffer image, emb_width = cellWidth,
                              emb_height = cellHeight, emb_fit = FitOf (imageFit options)\<rparr>
                      in Inr (svg1 @ [ImageElement (of_int posX) (of_int posY)
                                        cellWidth cellHeight processedBuffer clipAttr])))
            of
              Inl e \<Rightarrow> Inl e
            | Inr svg2 \<Rightarrow>
                if borderWidth options > 0 then
                  svgLoop sortedImages positions options (Suc i)
                    (svg2 @ [BorderRect
                               (fl (of_int posX - fl (of_int (borderWidth options) / 2)))
                               (fl (of_int posY - fl (of_int (borderWidth options) / 2)))
                               (cellWidth + borderWidth options)
                               (cellHeight + borderWidth options)
                               (fl (of_int (cornerRadius options)
                                    + fl (of_int (borderWidth options) / 2)))
                               (borderColor options) (borderWidth options)])
                else svgLoop sortedImages positions options (Suc i) svg2
      else Inr svg)"
  by pat_completeness auto
termination
  by (relation "measure (\<lambda>(sortedImages, positions, options, i, svg).
                           length sortedImages - i)") auto

declare svgLoop.simps [simp del]

definition buildGridSvg ::
  "GridImage list \<Rightarrow> GridOptions \<Rightarrow> TextOverlay list \<Rightarrow> (error + SvgPiece list) option"
where
  "buildGridSvg images options textOverlays =
     (let sortedImages = sort_key order images in
      case calculateActualDimensions options (length sortedImages) of
        None \<Rightarrow> None
      | Some actualDimensions \<Rightarrow>
          let canvasWidth = d_width actualDimensions;
              canvasHeight = d_height actualDimensions;
              adjustedOptions = options\<lparr>rows := d_rows actualDimensions, height := canvasHeight\<rparr>
          in
            case calculateCellPositions adjustedOptions (length sortedImages) of
              None \<Rightarrow> None
            | Some positions \<Rightarrow>
                let svg0 = [SvgOpen canvasWidth canvasHeight];
                    svg1 = svg0 @ [DefsOpen];
                    svg2 = (if backgroundColor options \<noteq> [] \<and>
                               backgroundColor options \<noteq> ''transparent''
                            then svg1 @ [BackgroundRect canvasWidth canvasHeight
                                           (backgroundColor options)]
                            else svg1)
                in
                  Some
                    (case svgLoop sortedImages positions options 0 svg2 of
                       Inl e \<Rightarrow> Inl e
                     | Inr svg3 \<Rightarrow>
                         let svg4 = svg3 @ [DefsClose];
                             svg5 = svg4 @ map (\<lambda>overlay. TextMarkup
                                      (createTextSvgElement overlay canvasWidth canvasHeight))
                                      textOverlays
                         in Inr (svg5 @ [SvgClose])))"

section \<open>Notions and inputs of the statements\<close>

text \<open>
  The cell of index \<open>i\<close> in a grid of cells \<open>w\<close> wide and \<open>h\<close> high: what one run of
  the loop body of \<open>calculateCellPositions\<close> appends, with the quotient and the rounding
  computed on integers.
\<close>

definition cellAt :: "GridOptions \<Rightarrow> int \<Rightarrow> int \<Rightarrow> nat \<Rightarrow> CellPosition" where
  "cellAt options w h i =
     \<lparr>pos_x = padding options + borderWidth options
                + js_rem (int i) (cols options) * (w + borderWidth options * 2 + padding options),
      pos_y = padding options + borderWidth options
                + (int i div cols options) * (h + borderWidth options * 2 + padding options),
      pos_width = w, pos_height = h\<rparr>"

text \<open>The grid of the specification's concrete scenarios 1 and 2.\<close>

definition scenarioOptions :: GridOptions where
  "scenarioOptions =
     \<lparr>rows = 2, cols = 2, width = 1080, height = 1080, padding = 20,
      backgroundColor = ''#1a1a1a'', borderWidth = 0, borderColor = ''#ffffff'',
      cornerRadius = 0, imageFit = Cover\<rparr>"

text \<open>A grid whose padding exceeds its canvas: one column, one configured row.\<close>

definition degenerateOptions :: GridOptions where
  "degenerateOptions =
     \<lparr>rows = 1, cols = 1, width = 10, height = 10, padding = 20,
      backgroundColor = ''#1a1a1a'', borderWidth = 0, borderColor = ''#ffffff'',
      cornerRadius = 0, imageFit = Cover\<rparr>"

text \<open>A text overlay of the specification's concrete scenario 4, and two images.\<close>

definition scenarioOverlay :: TextOverlay where
  "scenarioOverlay =
     \<lparr>ov_id = ''label'', ov_text = ''New Text'', ov_x = 1, ov_y = 0, ov_fontFamily = Arial,
      ov_fontSize = 48, ov_fontWeight = Bold, ov_color = ''#ffffff'', ov_align = Right,
      ov_shadow = None, ov_stroke = None\<rparr>"

definition wideImage :: GridImage where
  "wideImage = \<lparr>buffer = ImageData 600 200, order = 0\<rparr>"

definition brokenImage :: GridImage where
  "brokenImage =
     \<lparr>buffer = Undecodable ''Input buffer contains unsupported image format'', order = 1\<rparr>"



text \<open>The pieces that draw the grid: background, clip paths, cell images and borders.\<close>

definition isGridPiece :: "SvgPiece \<Rightarrow> bool" where
  "isGridPiece piece =
     (case piece of
        BackgroundRect w h c \<Rightarrow> True
      | ClipPath i x y w h r \<Rightarrow> True
      | ImageElement x y w h e c \<Rightarrow> True
      | BorderRect x y w h r c b \<Rightarrow> True
      | _ \<Rightarrow> False)"

text \<open>The three kinds of pieces that draw something.\<close>

definition isBackgroundRect :: "SvgPiece \<Rightarrow> bool" where
  "isBackgroundRect piece = (case piece of BackgroundRect w h c \<Rightarrow> True | _ \<Rightarrow> False)"

definition isImageElement :: "SvgPiece \<Rightarrow> bool" where
  "isImageElement piece = (case piece of ImageElement x y w h e c \<Rightarrow> True | _ \<Rightarrow> False)"

definition isBorderRect :: "SvgPiece \<Rightarrow> bool" where
  "isBorderRect piece = (case piece of BorderRect x y w h r c b \<Rightarrow> True | _ \<Rightarrow> False)"

text \<open>The scenario grid with a border of 3 pixels.\<close>

definition borderedOptions :: GridOptions where
  "borderedOptions = scenarioOptions\<lparr>borderWidth := 3\<rparr>"

section \<open>The numeric primitives on integers\<close>

text \<open>
  On integers \<open>Math.floor (a / b)\<close> is the quotient \<open>a div b\<close> of HOL, which rounds
  towards minus infinity, and \<open>Math.round\<close> changes nothing.
\<close>

lemma Math_floor_div: "Math_floor (of_int a / of_int b) = a div b"
  by (simp add: Math_floor_def floor_divide_of_int_eq)

lemma Math_floor_div_nat: "Math_floor (of_nat a / of_int b) = int a div b"
  using Math_floor_div[of "int a" b] by simp

lemma Math_round_of_int: "Math_round (of_int a) = a"
  unfolding Math_round_def by linarith

lemma Math_ceil_div: "Math_ceil (of_nat n / of_int c) = - ((- int n) div c)"
  using ceiling_divide_eq_div[of "int n" c, where 'a = rat]
  by (simp add: Math_ceil_def)

lemma js_rem_nonneg: "0 < c \<Longrightarrow> js_rem (int i) c = int i mod c"
  by (cases "i = 0") (simp_all add: js_rem_def)

section \<open>Rounding to doubles\<close>

text \<open>
  The digits of a positive integer bound it by powers of two, and so does the binary
  exponent for a rational other than 0.
\<close>

lemma bitLength_bounds:
  "0 < n \<Longrightarrow> 2 ^ nat (bitLength n - 1) \<le> n \<and> n < 2 ^ nat (bitLength n) \<and> 0 < bitLength n"
proof (induction n rule: bitLength.induct)
  case (1 n)
  show ?case
  proof (cases "n = 1")
    case True
    then show ?thesis
      by (simp add: bitLength.simps[of 1] bitLength.simps[of 0])
  next
    case False
    with "1.prems" have half: "0 < n div 2" by simp
    with "1.IH" "1.prems" have IH: "2 ^ nat (bitLength (n div 2) - 1) \<le> n div 2"
      "n div 2 < 2 ^ nat (bitLength (n div 2))" "0 < bitLength (n div 2)"
      by simp_all
    have bl: "bitLength n = bitLength (n div 2) + 1"
      using "1.prems" by (simp add: bitLength.simps[of n])
    have e1: "nat (bitLength n - 1) = Suc (nat (bitLength (n div 2) - 1))"
      using IH(3) bl by simp
    have e2: "nat (bitLength n) = Suc (nat (bitLength (n div 2)))"
      using IH(3) bl by simp
    have "2 * 2 ^ nat (bitLength (n div 2) - 1) \<le> n"
      using IH(1) by linarith
    moreover have "n < 2 * 2 ^ nat (bitLength (n div 2))"
      using IH(2) by linarith
    ultimately show ?thesis using bl IH(3) unfolding e1 e2 by simp
  qed
qed


lemma bitLength_powi:
  assumes "0 < n"
  shows "(2::rat) powi (bitLength n - 1) \<le> of_int n" and "of_int n < (2::rat) powi (bitLength n)"
proof -
  from bitLength_bounds[OF assms]
  have lo: "2 ^ nat (bitLength n - 1) \<le> n" and hi: "n < 2 ^ nat (bitLength n)"
    and pos: "0 < bitLength n" by simp_all
  have "(of_int (2 ^ nat (bitLength n - 1)) :: rat) \<le> of_int n"
    using lo by (simp only: of_int_le_iff)
  then show "(2::rat) powi (bitLength n - 1) \<le> of_int n"
    using pos by (simp add: power_int_def)
  have "(of_int n :: rat) < of_int (2 ^ nat (bitLength n))"
    using hi by (simp only: of_int_less_iff)
  then show "of_int n < (2::rat) powi (bitLength n)"
    using pos by (simp add: power_int_def)
qed

lemma binaryExponent_bounds:
  assumes "x \<noteq> 0"
  shows "2 powi (binaryExponent x) \<le> \<bar>x\<bar>" and "\<bar>x\<bar> < 2 powi (binaryExponent x + 1)"
proof -
  obtain p q where pq: "quotient_of x = (p, q)" by (cases "quotient_of x")
  then have q: "0 < q" and x: "x = of_int p / of_int q"
    using quotient_of_denom_pos quotient_of_div by blast+
  from assms x have p: "0 < \<bar>p\<bar>" by auto
  let ?a = "bitLength \<bar>p\<bar>" and ?b = "bitLength q"
  let ?k = "?a - ?b"
  have ax: "\<bar>x\<bar> = of_int \<bar>p\<bar> / of_int q"
    using q by (simp add: x)
  have qpos: "(0::rat) < of_int q" using q by simp
  have lower: "2 powi (?k - 1) \<le> \<bar>x\<bar>"
  proof -
    have "?k - 1 = (?a - 1) - ?b" by simp
    then have "(2::rat) powi (?k - 1) = 2 powi (?a - 1) / 2 powi ?b"
      by (simp only: power_int_diff[of "2::rat" "?a - 1" ?b, simplified])
    also have "\<dots> \<le> of_int \<bar>p\<bar> / 2 powi ?b"
      using bitLength_powi(1)[OF p] by (simp add: divide_right_mono)
    also have "\<dots> \<le> of_int \<bar>p\<bar> / of_int q"
      using bitLength_powi(2)[OF q] qpos p by (intro divide_left_mono) auto
    finally show ?thesis by (simp add: ax)
  qed
  have upper: "\<bar>x\<bar> < 2 powi (?k + 1)"
  proof -
    have "\<bar>x\<bar> = of_int \<bar>p\<bar> / of_int q" by (rule ax)
    also have "\<dots> < 2 powi ?a / of_int q"
      using bitLength_powi(2)[OF p] qpos by (simp add: divide_strict_right_mono)
    also have "\<dots> \<le> 2 powi ?a / 2 powi (?b - 1)"
    proof (intro divide_left_mono)
      show "(2::rat) powi (?b - 1) \<le> of_int q" by (rule bitLength_powi(1)[OF q])
      show "(0::rat) \<le> 2 powi ?a" by simp
      have "(0::rat) < 2 powi (?b - 1)" by simp
      with qpos show "(0::rat) < of_int q * 2 powi (?b - 1)" by (rule mult_pos_pos)
    qed
    also have "\<dots> = 2 powi (?k + 1)"
    proof -
      have "?k + 1 = ?a - (?b - 1)" by simp
      then show ?thesis
        by (simp only: power_int_diff[of "2::rat" ?a "?b - 1", simplified])
    qed
    finally show ?thesis .
  qed
  have be: "binaryExponent x = (if 2 powi ?k \<le> \<bar>x\<bar> then ?k else ?k - 1)"
    by (simp add: binaryExponent_def pq)
  show "2 powi (binaryExponent x) \<le> \<bar>x\<bar>"
    using lower by (simp add: be)
  show "\<bar>x\<bar> < 2 powi (binaryExponent x + 1)"
    using upper by (auto simp add: be)
qed


lemma roundHalfEven_of_int: "roundHalfEven (of_int m) = m"
  by (simp add: roundHalfEven_def)

lemma roundHalfEven_near: "\<bar>of_int (roundHalfEven m) - m\<bar> \<le> 1 / 2"
proof -
  have "of_int \<lfloor>m\<rfloor> \<le> m" "m < of_int \<lfloor>m\<rfloor> + 1" by linarith+
  then show ?thesis
    by (auto simp add: roundHalfEven_def Let_def abs_le_iff)
qed

text \<open>
  \<open>fl\<close> moves a number by at most half the spacing of the doubles around it, and
  leaves an integer below \<open>2 ^ 53\<close> as it is.
\<close>

lemma fl_near:
  "\<bar>fl x - x\<bar> \<le> 2 powi (max (binaryExponent x - 52) (- 1074)) / 2"
proof (cases "x = 0")
  case True
  then show ?thesis by (simp add: fl_def)
next
  case False
  let ?e = "max (binaryExponent x - 52) (- 1074)"
  let ?u = "(2::rat) powi ?e"
  have u: "0 < ?u" by simp
  have "fl x - x = (of_int (roundHalfEven (x / ?u)) - x / ?u) * ?u"
    using False u by (simp add: fl_def Let_def algebra_simps)
  then have "\<bar>fl x - x\<bar> = \<bar>of_int (roundHalfEven (x / ?u)) - x / ?u\<bar> * ?u"
    using u by (simp add: abs_mult)
  also have "\<dots> \<le> (1 / 2) * ?u"
    using roundHalfEven_near[of "x / ?u"] u by (intro mult_right_mono) auto
  finally show ?thesis by simp
qed

lemma fl_of_int:
  assumes "\<bar>n\<bar> < 2 ^ 53"
  shows "fl (of_int n) = of_int n"
proof (cases "n = 0")
  case True
  then show ?thesis by (simp add: fl_def)
next
  case False
  let ?x = "of_int n :: rat"
  let ?E = "binaryExponent ?x"
  have x: "?x \<noteq> 0" using False by simp
  have one: "(1::rat) \<le> \<bar>?x\<bar>" using False by (simp flip: of_int_abs)
  have big: "\<bar>?x\<bar> < 2 powi 53"
    using assms by (simp flip: of_int_abs)
  have E0: "0 \<le> ?E"
  proof (rule ccontr)
    assume "\<not> 0 \<le> ?E"
    then have "?E + 1 \<le> 0" by simp
    then have "(2::rat) powi (?E + 1) \<le> 2 powi 0"
      by (intro power_int_increasing) auto
    with binaryExponent_bounds(2)[OF x] one show False by simp
  qed
  have E52: "?E \<le> 52"
  proof (rule ccontr)
    assume "\<not> ?E \<le> 52"
    then have "53 \<le> ?E" by simp
    then have "(2::rat) powi 53 \<le> 2 powi ?E"
      by (intro power_int_increasing) auto
    with binaryExponent_bounds(1)[OF x] big show False by simp
  qed
  define k where "k = nat (52 - ?E)"
  have e: "max (?E - 52) (- 1074) = - int k"
    using E0 E52 by (simp add: k_def)
  have "?x / 2 powi (- int k) = of_int (n * 2 ^ k)"
    by (simp add: power_int_minus field_simps)
  then have "fl ?x = of_int (n * 2 ^ k) * 2 powi (- int k)"
    using x by (simp add: fl_def Let_def e roundHalfEven_of_int del: of_int_mult of_int_power)
  also have "\<dots> = ?x"
    by (simp add: power_int_minus field_simps)
  finally show ?thesis .
qed

text \<open>
  The double written \<open>0.1\<close>, and two anchors as the engine computes them: \<open>0.285\<close> of
  100 pixels and \<open>0.69\<close> of 550 pixels.
\<close>

lemma fl_examples:
  "fl (1 / 10) = 3602879701896397 / 2 ^ 55"
  "Math_round (fl (fl (285 / 1000) * 100)) = 28"
  "Math_round (fl (fl (69 / 100) * 550)) = 379"
  by code_simp+

section \<open>Properties of the layout calculator\<close>

text \<open>The loop appends the cells of the indices whose row lies below \<open>actualRows\<close>, in order.\<close>

lemma positionsLoop_eq:
  "positionsLoop options ar w h n i acc =
     acc @ map (cellAt options w h) (filter (\<lambda>j. int j div cols options < ar) [i..<n])"
proof (induction options ar w h n i acc rule: positionsLoop.induct)
  case (1 options ar w h n i acc)
  note unfold = positionsLoop.simps[of options ar w h n i acc,
                  unfolded Let_def Math_floor_div_nat Math_round_of_int]
  show ?case
  proof (cases "i < n")
    case False
    then show ?thesis by (simp add: unfold)
  next
    case True
    then have up: "[i..<n] = i # [Suc i..<n]" by (simp add: upt_conv_Cons)
    show ?thesis
    proof (cases "int i div cols options < ar")
      case inside: True
      have step: "positionsLoop options ar w h n i acc =
          positionsLoop options ar w h n (Suc i) (acc @ [cellAt options w h i])"
        using True inside by (simp add: unfold cellAt_def[of options w h i])
      have IH: "positionsLoop options ar w h n (Suc i) (acc @ [cellAt options w h i]) =
          (acc @ [cellAt options w h i]) @
          map (cellAt options w h) (filter (\<lambda>j. int j div cols options < ar) [Suc i..<n])"
        using 1(2)[OF True refl refl _ refl refl,
                unfolded Math_floor_div_nat Math_round_of_int] inside
        by (simp add: cellAt_def[of options w h i])
      show ?thesis unfolding step IH using inside by (simp add: up)
    next
      case outside: False
      have step: "positionsLoop options ar w h n i acc =
          positionsLoop options ar w h n (Suc i) acc"
        using True outside by (simp add: unfold)
      have IH: "positionsLoop options ar w h n (Suc i) acc =
          acc @ map (cellAt options w h) (filter (\<lambda>j. int j div cols options < ar) [Suc i..<n])"
        using 1(1)[OF True refl refl, unfolded Math_floor_div_nat] outside by simp
      show ?thesis unfolding step IH using outside by (simp add: up)
    qed
  qed
qed

text \<open>With at least one column, the row of every index below the image count is needed.\<close>

lemma row_below_actual:
  assumes "0 < c" "i < n"
  shows "int i div c < Math_ceil (of_nat n / of_int c)"
proof -
  have lt: "(of_nat i :: rat) / of_int c < of_nat n / of_int c"
    using assms by (simp add: divide_strict_right_mono)
  have "of_int (int i div c) \<le> (of_int (int i) :: rat) / of_int c"
    using of_int_floor_le[of "of_int (int i) / of_int c :: rat"]
    unfolding floor_divide_of_int_eq .
  then have lo: "of_int (int i div c) \<le> (of_nat i :: rat) / of_int c"
    by simp
  have hi: "(of_nat n :: rat) / of_int c \<le> of_int (Math_ceil (of_nat n / of_int c))"
    unfolding Math_ceil_def by (rule le_of_int_ceiling)
  have "(of_int (int i div c) :: rat) < of_int (Math_ceil (of_nat n / of_int c))"
    by (rule le_less_trans[OF lo less_le_trans[OF lt hi]])
  then show ?thesis by simp
qed

lemma calculateCellPositions_eq:
  assumes "0 < cols options" "rows options \<noteq> 0"
  shows "calculateCellPositions options n =
     Some (map (cellAt options
                  (max 1 ((width options - padding options * (cols options + 1)
                            - borderWidth options * cols options * 2) div cols options))
                  (max 1 ((height options - padding options * (rows options + 1)
                            - borderWidth options * rows options * 2) div rows options)))
             [0..<n])"
proof -
  let ?ar = "Math_ceil (of_nat n / of_int (cols options))"
  have all: "filter (\<lambda>j. int j div cols options < ?ar) [0..<n] = [0..<n]"
  proof -
    have "\<forall>j\<in>set [0..<n]. int j div cols options < ?ar"
      using row_below_actual[OF assms(1), of _ n] by auto
    then show ?thesis by (rule filter_True[OF _, rule_format] filter_True)
  qed
  have ar: "calculateActualRows n (cols options) = Some ?ar"
    using assms(1) by (simp add: calculateActualRows_def)
  show ?thesis
    unfolding calculateCellPositions_def ar Let_def positionsLoop_eq Math_floor_div
    using assms(2) by (simp add: all)
qed

lemma actualRows_pos:
  assumes "0 < c" "0 < n"
  shows "0 < Math_ceil (of_nat n / of_int c)"
  using row_below_actual[OF assms(1), of 0 n] assms(2) by simp

lemma calculateActualDimensions_eq:
  assumes "cols options \<noteq> 0" and "rows options \<noteq> 0"
  shows "calculateActualDimensions options n =
     Some \<lparr>d_width = width options,
           d_height = padding options * (Math_ceil (of_nat n / of_int (cols options)) + 1)
             + borderWidth options * Math_ceil (of_nat n / of_int (cols options)) * 2
             + ((height options - padding options * (rows options + 1)
                   - borderWidth options * rows options * 2) div rows options)
               * Math_ceil (of_nat n / of_int (cols options)),
           d_rows = Math_ceil (of_nat n / of_int (cols options)), d_cols = cols options\<rparr>"
  using assms
  by (simp add: calculateActualDimensions_def calculateActualRows_def Let_def Math_floor_div)

text \<open>
  The options that the grid builders pass on, with \<open>rows\<close> and \<open>height\<close> replaced by the
  actual rows and the actual height, give the positions of the original options.
\<close>

lemma adjusted_positions:
  assumes "0 < cols options" "rows options \<noteq> 0" "0 < n"
    and "calculateActualDimensions options n = Some dims"
  shows "calculateCellPositions (options\<lparr>rows := d_rows dims, height := d_height dims\<rparr>) n
         = calculateCellPositions options n"
proof -
  let ?ar = "Math_ceil (of_nat n / of_int (cols options))"
  have ar: "0 < ?ar" using actualRows_pos[OF assms(1,3)] .
  have dims: "d_rows dims = ?ar"
    "d_height dims = padding options * (?ar + 1) + borderWidth options * ?ar * 2
             + ((height options - padding options * (rows options + 1)
                   - borderWidth options * rows options * 2) div rows options) * ?ar"
    using assms(4) calculateActualDimensions_eq[of options n] assms(1,2) by auto
  let ?ch = "(height options - padding options * (rows options + 1)
                   - borderWidth options * rows options * 2) div rows options"
  have "d_height dims - padding options * (?ar + 1) - borderWidth options * ?ar * 2 = ?ch * ?ar"
    unfolding dims by (simp add: algebra_simps)
  then have "(d_height dims - padding options * (?ar + 1) - borderWidth options * ?ar * 2) div ?ar
        = ?ch"
    using ar by simp
  then show ?thesis
    using ar assms(1,2)
    by (simp add: calculateCellPositions_eq dims(1) cellAt_def)
qed

text \<open>Every cell is at least one pixel wide and high, and every image gets a cell.\<close>

lemma cells_at_least_one_pixel:
  assumes "0 < cols options" and "rows options \<noteq> 0"
    and "calculateCellPositions options n = Some ps" and "p \<in> set ps"
  shows "1 \<le> pos_width p \<and> 1 \<le> pos_height p"
  using assms(3,4) unfolding calculateCellPositions_eq[OF assms(1,2)]
  by (auto simp add: cellAt_def)

lemma calculateCellPositions_length:
  assumes "calculateCellPositions options n = Some ps" and "0 < cols options"
  shows "length ps = n"
proof -
  have "rows options \<noteq> 0"
    using assms(1) by (auto simp add: calculateCellPositions_def split: option.splits if_splits)
  from assms(1)[unfolded calculateCellPositions_eq[OF assms(2) this]] show ?thesis by auto
qed

section \<open>Claims about the layout calculator\<close>

text \<open>
  C1. For every grid specification with at least one column and one configured row, and
  every image count \<open>n\<close>, \<open>calculateActualDimensions\<close> returns the configured width and
  columns, the row count \<open>actualRows = ceil (n / cols)\<close>, and the canvas height
  \<open>padding * (actualRows + 1) + borderWidth * actualRows * 2 + cellHeight * actualRows\<close>,
  where \<open>cellHeight = floor ((height - padding * (rows + 1) - borderWidth * rows * 2) / rows)\<close>
  is computed from the configured \<open>rows\<close> and \<open>height\<close>, not from \<open>actualRows\<close>. The
  statement needs \<open>cols\<close> and \<open>rows\<close> to be non-zero only, and holds for \<open>n = 0\<close> too.
\<close>

theorem C1_actual_dimensions:
  assumes "cols options \<noteq> 0" and "rows options \<noteq> 0"
  shows "calculateActualDimensions options n =
     Some \<lparr>d_width = width options,
           d_height = padding options * (\<lceil>(of_nat n :: rat) / of_int (cols options)\<rceil> + 1)
             + borderWidth options * \<lceil>(of_nat n :: rat) / of_int (cols options)\<rceil> * 2
             + \<lfloor>(of_int (height options - padding options * (rows options + 1)
                          - borderWidth options * rows options * 2) :: rat)
                  / of_int (rows options)\<rfloor>
               * \<lceil>(of_nat n :: rat) / of_int (cols options)\<rceil>,
           d_rows = \<lceil>(of_nat n :: rat) / of_int (cols options)\<rceil>,
           d_cols = cols options\<rparr>"
  using assms
  by (simp add: calculateActualDimensions_def calculateActualRows_def Let_def
        Math_ceil_def Math_floor_def)

text \<open>
  The scenario of the specification: two columns, two configured rows, a canvas of 1080
  by 1080, padding 20, no border, one image. The cell height is 510 and the canvas
  height 550.
\<close>

theorem C1_actual_dimensions_witness:
  "calculateActualDimensions scenarioOptions 1 =
     Some \<lparr>d_width = 1080, d_height = 550, d_rows = 1, d_cols = 2\<rparr>
   \<and> \<lfloor>(of_int (height scenarioOptions - padding scenarioOptions * (rows scenarioOptions + 1)
                  - borderWidth scenarioOptions * rows scenarioOptions * 2) :: rat)
         / of_int (rows scenarioOptions)\<rfloor> = 510"
proof -
  have "\<lceil>(1::rat) / 2\<rceil> = 1"
    by (rule ceiling_unique) simp_all
  then show ?thesis
    using C1_actual_dimensions[of scenarioOptions 1] by (simp add: scenarioOptions_def)
qed

text \<open>
  C4, at an input where the code departs from it. For the grid \<open>degenerateOptions\<close>
  (padding 20 on a canvas of 10 by 10, one column, one configured row) and three images,
  \<open>calculateActualDimensions\<close> computes the cell height \<open>floor ((10 - 40) / 1) = - 30\<close>
  and does not clamp it, as \<open>calculateCellPositions\<close> does: the canvas height it returns
  is \<open>20 * 4 + (- 30) * 3 = - 10\<close>, while the three cells, one pixel wide and high, lie
  at \<open>y = 20\<close>, \<open>41\<close> and \<open>62\<close>. The part of the claim about the cells holds, by
  \<open>cells_at_least_one_pixel\<close>.
\<close>

theorem C4_negative_canvas_height:
  "calculateActualDimensions degenerateOptions 3 =
     Some \<lparr>d_width = 10, d_height = - 10, d_rows = 3, d_cols = 1\<rparr>
   \<and> calculateCellPositions degenerateOptions 3 =
     Some [\<lparr>pos_x = 20, pos_y = 20, pos_width = 1, pos_height = 1\<rparr>,
           \<lparr>pos_x = 20, pos_y = 41, pos_width = 1, pos_height = 1\<rparr>,
           \<lparr>pos_x = 20, pos_y = 62, pos_width = 1, pos_height = 1\<rparr>]"
  by (simp add: calculateActualDimensions_eq calculateCellPositions_eq degenerateOptions_def
        Math_ceil_def cellAt_def js_rem_def upt_conv_Cons)

text \<open>
  C5, as amended. With at least one column and a non-zero configured row count, every
  image index \<open>i\<close> below the image count \<open>n\<close> has a cell, the cell of index \<open>i\<close> is the
  \<open>i\<close>-th of the list, and it lies at
  \<open>x = padding + borderWidth + col * (cellWidth + borderWidth * 2 + padding)\<close> and
  \<open>y = padding + borderWidth + row * (cellHeight + borderWidth * 2 + padding)\<close> with
  \<open>row = floor (i / cols)\<close> and \<open>col = i mod cols\<close>, where \<open>cellWidth\<close> and \<open>cellHeight\<close>
  are the quotients computed from the configured width, height, columns and rows, each
  raised to 1 when it is smaller. The options that \<open>buildGrid\<close> and \<open>buildGridSvg\<close> pass
  to the position calculator (\<open>rows\<close> replaced by the actual rows, \<open>height\<close> by the actual
  height) give the same list. Here \<open>div\<close> is the floor of the quotient.
\<close>

theorem C5_cell_positions:
  assumes "0 < cols options" and "rows options \<noteq> 0" and "i < n"
    and "calculateActualDimensions options n = Some dims"
  shows "\<exists>ps. calculateCellPositions options n = Some ps
            \<and> calculateCellPositions
                 (options\<lparr>rows := d_rows dims, height := d_height dims\<rparr>) n = Some ps
            \<and> length ps = n
            \<and> ps ! i =
                \<lparr>pos_x = padding options + borderWidth options
                    + (int i mod cols options)
                      * (max 1 ((width options - padding options * (cols options + 1)
                                  - borderWidth options * cols options * 2) div cols options)
                         + borderWidth options * 2 + padding options),
                  pos_y = padding options + borderWidth options
                    + (int i div cols options)
                      * (max 1 ((height options - padding options * (rows options + 1)
                                  - borderWidth options * rows options * 2) div rows options)
                         + borderWidth options * 2 + padding options),
                  pos_width = max 1 ((width options - padding options * (cols options + 1)
                                  - borderWidth options * cols options * 2) div cols options),
                  pos_height = max 1 ((height options - padding options * (rows options + 1)
                                  - borderWidth options * rows options * 2) div rows options)\<rparr>"
proof -
  have n: "0 < n" using assms(3) by simp
  show ?thesis
    unfolding adjusted_positions[OF assms(1,2) n assms(4)]
      calculateCellPositions_eq[OF assms(1,2)]
    using assms(1,3) by (simp add: cellAt_def js_rem_nonneg)
qed

text \<open>
  One image in the scenario grid: the builders pass on one row and the height 550, and
  the cell lies at \<open>(20, 20)\<close>, 510 by 510, for the original and for the rewritten options.
\<close>

theorem C5_cell_positions_witness:
  "\<exists>ps. calculateCellPositions scenarioOptions 1 = Some ps
     \<and> calculateCellPositions (scenarioOptions\<lparr>rows := 1, height := 550\<rparr>) 1 = Some ps
     \<and> length ps = 1
     \<and> ps ! 0 = \<lparr>pos_x = 20, pos_y = 20, pos_width = 510, pos_height = 510\<rparr>"
proof -
  have d: "calculateActualDimensions scenarioOptions 1 =
      Some \<lparr>d_width = 1080, d_height = 550, d_rows = 1, d_cols = 2\<rparr>"
    by code_simp
  show ?thesis
    using C5_cell_positions[of scenarioOptions 0 1, OF _ _ _ d]
    by (simp add: scenarioOptions_def)
qed

text \<open>
  C5 as stated fails when a quotient is below 1. In the grid \<open>degenerateOptions\<close> with
  three images the cell of index 1 lies at \<open>y = 41\<close>, computed with the clamped cell
  height 1, whereas the formula of the claim with the unclamped cell height
  \<open>floor ((10 - 40) / 1) = - 30\<close> gives \<open>20 + 0 + 1 * (- 30 + 0 + 20) = 10\<close>.
\<close>

theorem C5_unclamped_counterexample:
  "calculateCellPositions degenerateOptions 3 =
     Some [\<lparr>pos_x = 20, pos_y = 20, pos_width = 1, pos_height = 1\<rparr>,
           \<lparr>pos_x = 20, pos_y = 41, pos_width = 1, pos_height = 1\<rparr>,
           \<lparr>pos_x = 20, pos_y = 62, pos_width = 1, pos_height = 1\<rparr>]
   \<and> padding degenerateOptions + borderWidth degenerateOptions
       + \<lfloor>(1::rat) / of_int (cols degenerateOptions)\<rfloor>
         * (\<lfloor>(of_int (height degenerateOptions
                      - padding degenerateOptions * (rows degenerateOptions + 1)
                      - borderWidth degenerateOptions * rows degenerateOptions * 2) :: rat)
              / of_int (rows degenerateOptions)\<rfloor>
            + borderWidth degenerateOptions * 2 + padding degenerateOptions) = 10"
proof
  show "calculateCellPositions degenerateOptions 3 =
     Some [\<lparr>pos_x = 20, pos_y = 20, pos_width = 1, pos_height = 1\<rparr>,
           \<lparr>pos_x = 20, pos_y = 41, pos_width = 1, pos_height = 1\<rparr>,
           \<lparr>pos_x = 20, pos_y = 62, pos_width = 1, pos_height = 1\<rparr>]"
    by (simp add: calculateCellPositions_eq degenerateOptions_def cellAt_def js_rem_def
          upt_conv_Cons)
next
  show "padding degenerateOptions + borderWidth degenerateOptions
       + \<lfloor>(1::rat) / of_int (cols degenerateOptions)\<rfloor>
         * (\<lfloor>(of_int (height degenerateOptions
                      - padding degenerateOptions * (rows degenerateOptions + 1)
                      - borderWidth degenerateOptions * rows degenerateOptions * 2) :: rat)
              / of_int (rows degenerateOptions)\<rfloor>
            + borderWidth degenerateOptions * 2 + padding degenerateOptions) = 10"
    by (simp add: degenerateOptions_def)
qed

section \<open>Claims about the cell fitter and the text overlays\<close>





text \<open>
  C8, as amended. The markup of a text overlay on a canvas of \<open>w\<close> by \<open>h\<close> ends with the
  main \<open><text>\<close> element, which is filled with the overlay's colour and anchored at
  \<open>(round (x * w), round (y * h))\<close> whatever the alignment, where each product is
  computed in doubles, that is rounded to the nearest double before \<open>Math.round\<close> is
  applied; every element of the markup (shadow, stroke, main text) has the
  \<open>text-anchor\<close> \<open>start\<close> for the alignment left, \<open>middle\<close> for center and \<open>end\<close> for
  right. No bound on \<open>x\<close> and \<open>y\<close> is needed.
\<close>

theorem C8_text_anchor:
  "createTextSvgElement overlay w h \<noteq> []
   \<and> text_x (last (createTextSvgElement overlay w h))
       = of_int (Math_round (fl (ov_x overlay * of_int w)))
   \<and> text_y (last (createTextSvgElement overlay w h))
       = of_int (Math_round (fl (ov_y overlay * of_int h)))
   \<and> text_fill (last (createTextSvgElement overlay w h)) = Named (ov_color overlay)
   \<and> (\<forall>el \<in> set (createTextSvgElement overlay w h).
         text_anchor el = (case ov_align overlay of
                             Left \<Rightarrow> ''start'' | Center \<Rightarrow> ''middle'' | Right \<Rightarrow> ''end''))"
  by (cases "ov_align overlay")
     (auto simp add: createTextSvgElement_def Let_def split: option.splits)

text \<open>
  The overlay at \<open>x = 1\<close>, \<open>y = 0\<close>, aligned right, on a canvas of 1000 by 500 is one
  element anchored at \<open>(1000, 0)\<close> with \<open>text-anchor\<close> \<open>end\<close>.
\<close>

theorem C8_text_anchor_witness:
  "text_x (last (createTextSvgElement scenarioOverlay 1000 500)) = 1000
   \<and> text_y (last (createTextSvgElement scenarioOverlay 1000 500)) = 0
   \<and> map text_anchor (createTextSvgElement scenarioOverlay 1000 500) = [''end'']"
proof -
  have position:
    "Math_round (fl (ov_x scenarioOverlay * of_int 1000)) = 1000"
    "Math_round (fl (ov_y scenarioOverlay * of_int 500)) = 0"
    by code_simp+
  have anchors: "map text_anchor (createTextSvgElement scenarioOverlay 1000 500) = [''end'']"
    by code_simp
  show ?thesis
    using C8_text_anchor[of scenarioOverlay 1000 500] unfolding position anchors by simp
qed

text \<open>
  C8 as stated fails: with the exact product the overlay whose \<open>y\<close> is the double
  written \<open>0.03\<close>, which lies below \<open>3 / 100\<close>, would be anchored on a canvas 550 high at
  \<open>round (y * 550) = 16\<close>. The code multiplies in doubles: the product rounds to the
  double \<open>16.5\<close>, and the overlay is anchored at \<open>y = 17\<close>.
\<close>

theorem C8_exact_product_counterexample:
  "text_y (last (createTextSvgElement (scenarioOverlay\<lparr>ov_y := fl (3 / 100)\<rparr>) 1000 550)) = 17
   \<and> fl (fl (3 / 100) * 550) = 33 / 2
   \<and> round (fl (3 / 100) * 550 :: rat) = 16"
  by code_simp

section \<open>Properties of the two loops over the images\<close>

text \<open>
  The cell fitter fails exactly on an undecodable buffer, with the library's error, and a
  cell image has the size of its cell.
\<close>

lemma applyRoundedCorners_undecodable:
  "applyRoundedCorners (Undecodable m) w h r f = Inl (Error m)"
  by (simp add: applyRoundedCorners_def sharp_decode_def)

lemma applyRoundedCorners_decodable:
  "\<exists>p. applyRoundedCorners (ImageData iw ih) w h r f = Inr p"
  by (simp add: applyRoundedCorners_def sharp_decode_def Let_def)



text \<open>One run of the loop body of \<open>buildGrid\<close>, with the rounding of integers removed.\<close>

lemma gridLoop_step:
  "gridLoop imgs ps opts i ic bc =
     (if i < length imgs then
        if \<not> i < length ps then gridLoop imgs ps opts (Suc i) ic bc
        else
          case applyRoundedCorners (buffer (imgs ! i)) (pos_width (ps ! i)) (pos_height (ps ! i))
                 (cornerRadius opts) (imageFit opts) of
            Inl e \<Rightarrow> Inl e
          | Inr p \<Rightarrow>
              gridLoop imgs ps opts (Suc i)
                (ic @ [\<lparr>comp_input = CellImage p, comp_left = pos_x (ps ! i),
                        comp_top = pos_y (ps ! i)\<rparr>])
                (if 0 < borderWidth opts then
                   case createCellBorder (pos_width (ps ! i)) (pos_height (ps ! i))
                          (borderWidth opts) (borderColor opts) (cornerRadius opts) of
                     Some border \<Rightarrow>
                       bc @ [\<lparr>comp_input = CellBorder border,
                               comp_left = pos_x (ps ! i) - borderWidth opts,
                               comp_top = pos_y (ps ! i) - borderWidth opts\<rparr>]
                   | None \<Rightarrow> bc
                 else bc)
      else Inr (ic, bc))"
  by (subst gridLoop.simps)
     (simp add: Let_def Math_round_of_int split: sum.splits option.splits)


text \<open>The loop stops with the library's error at the first undecodable image that has a position.\<close>

lemma gridLoop_fails:
  assumes "length imgs \<le> length ps" and "i \<le> j" and "j < length imgs"
    and "buffer (imgs ! j) = Undecodable m"
  shows "\<exists>img \<in> set imgs. \<exists>m'. buffer img = Undecodable m'
            \<and> gridLoop imgs ps opts i ic bc = Inl (Error m')"
  using assms
proof (induction "length imgs - i" arbitrary: i ic bc)
  case 0
  then show ?case by simp
next
  case (Suc k)
  then have i: "i < length imgs" and k: "k = length imgs - Suc i" and ips: "i < length ps"
    by simp_all
  show ?case
  proof (cases "buffer (imgs ! i)")
    case (Undecodable m')
    then have "gridLoop imgs ps opts i ic bc = Inl (Error m')"
      using i ips by (simp add: gridLoop_step[of imgs ps opts i] applyRoundedCorners_undecodable)
    moreover have "imgs ! i \<in> set imgs" using i by simp
    ultimately show ?thesis using Undecodable by blast
  next
    case (ImageData w h)
    with Suc.prems(4) have "i \<noteq> j" by auto
    with Suc.prems(2) have le: "Suc i \<le> j" by simp
    obtain p where p: "applyRoundedCorners (buffer (imgs ! i)) (pos_width (ps ! i))
                         (pos_height (ps ! i)) (cornerRadius opts) (imageFit opts) = Inr p"
      using applyRoundedCorners_decodable[of w h "pos_width (ps ! i)" "pos_height (ps ! i)"
              "cornerRadius opts" "imageFit opts"]
      unfolding ImageData by blast
    show ?thesis
      using Suc.hyps(1)[OF k Suc.prems(1) le Suc.prems(3,4)] i ips
      by (simp add: gridLoop_step[of imgs ps opts i] p)
  qed
qed


text \<open>
  The loop of \<open>buildGridSvg\<close> only appends, and only pieces that draw the grid.
\<close>

lemma svgLoop_skip:
  "i < length imgs \<Longrightarrow> \<not> i < length ps \<Longrightarrow>
   svgLoop imgs ps opts i svg = svgLoop imgs ps opts (Suc i) svg"
  by (subst svgLoop.simps) simp

lemma svgLoop_done:
  "\<not> i < length imgs \<Longrightarrow> svgLoop imgs ps opts i svg = Inr svg"
  by (subst svgLoop.simps) simp

lemma svgLoop_step:
  assumes "i < length imgs" and "i < length ps"
    and "svgLoop imgs ps opts i svg = Inr out"
  shows "\<exists>pieces. svgLoop imgs ps opts (Suc i) (svg @ pieces) = Inr out
            \<and> (list_all isGridPiece pieces
                \<and> filter isBackgroundRect pieces = []
                \<and> length (filter isImageElement pieces) = 1
                \<and> length (filter isBorderRect pieces) = (if 0 < borderWidth opts then 1 else 0))"
proof -
  note run = assms(3)[unfolded svgLoop.simps[of imgs ps opts i svg] Let_def]
  show ?thesis
  proof (cases "buffer (imgs ! i)")
    case (Undecodable m)
    with run assms(1,2) show ?thesis
      by (simp add: sharp_decode_def split: if_splits)
  next
    case (ImageData w h)
    show ?thesis
    proof (cases "0 < cornerRadius opts")
      case clip: True
      show ?thesis
      proof (cases "0 < borderWidth opts")
        case True
        with run assms(1,2) ImageData clip show ?thesis
          apply (simp add: sharp_decode_def Let_def split: if_splits)
           apply (rule exI, rule conjI, assumption, simp add: isGridPiece_def isBackgroundRect_def isImageElement_def
                  isBorderRect_def)+
          done
      next
        case False
        with run assms(1,2) ImageData clip show ?thesis
          apply (simp add: sharp_decode_def Let_def split: if_splits)
           apply (rule exI, rule conjI, assumption, simp add: isGridPiece_def isBackgroundRect_def isImageElement_def
                  isBorderRect_def)+
          done
      qed
    next
      case noclip: False
      show ?thesis
      proof (cases "0 < borderWidth opts")
        case True
        with run assms(1,2) ImageData noclip show ?thesis
          apply (simp add: sharp_decode_def Let_def split: if_splits)
           apply (rule exI, rule conjI, assumption, simp add: isGridPiece_def isBackgroundRect_def isImageElement_def
                  isBorderRect_def)+
          done
      next
        case False
        with run assms(1,2) ImageData noclip show ?thesis
          apply (simp add: sharp_decode_def Let_def split: if_splits)
           apply (rule exI, rule conjI, assumption, simp add: isGridPiece_def isBackgroundRect_def isImageElement_def
                  isBorderRect_def)+
          done
      qed
    qed
  qed
qed

lemma svgLoop_appends:
  assumes "svgLoop imgs ps opts i svg = Inr out"
  shows "\<exists>rest. out = svg @ rest \<and> list_all isGridPiece rest
            \<and> filter isBackgroundRect rest = []"
  using assms
proof (induction "length imgs - i" arbitrary: i svg)
  case 0
  then show ?case by (simp add: svgLoop_done)
next
  case (Suc k)
  then have i: "i < length imgs" and k: "k = length imgs - Suc i" by simp_all
  show ?case
  proof (cases "i < length ps")
    case False
    with Suc.prems i have "svgLoop imgs ps opts (Suc i) svg = Inr out"
      by (simp add: svgLoop_skip)
    from Suc.hyps(1)[OF k this] show ?thesis .
  next
    case True
    from svgLoop_step[OF i True Suc.prems] obtain pieces
      where run: "svgLoop imgs ps opts (Suc i) (svg @ pieces) = Inr out"
        and pieces: "list_all isGridPiece pieces" "filter isBackgroundRect pieces = []"
      by blast
    from Suc.hyps(1)[OF k run] obtain rest
      where "out = (svg @ pieces) @ rest" and "list_all isGridPiece rest"
        and "filter isBackgroundRect rest = []"
      by blast
    with pieces have "out = svg @ (pieces @ rest) \<and> list_all isGridPiece (pieces @ rest)
        \<and> filter isBackgroundRect (pieces @ rest) = []"
      by simp
    then show ?thesis by blast
  qed
qed

text \<open>
  When every image has a position, a loop that succeeds appends one image per input
  image, one border per input image when the border width is positive and none
  otherwise, and no background.
\<close>

lemma svgLoop_counts:
  assumes "svgLoop imgs ps opts i svg = Inr out" and "length imgs \<le> length ps"
    and "i \<le> length imgs"
  shows "\<exists>rest. out = svg @ rest
            \<and> length (filter isImageElement rest) = length imgs - i
            \<and> length (filter isBorderRect rest)
                = (if 0 < borderWidth opts then length imgs - i else 0)"
  using assms
proof (induction "length imgs - i" arbitrary: i svg)
  case 0
  then show ?case by (simp add: svgLoop_done)
next
  case (Suc k)
  then have i: "i < length imgs" and k: "k = length imgs - Suc i" and ips: "i < length ps"
    by simp_all
  from svgLoop_step[OF i ips Suc.prems(1)] obtain pieces
    where run: "svgLoop imgs ps opts (Suc i) (svg @ pieces) = Inr out"
      and im: "length (filter isImageElement pieces) = 1"
      and bd: "length (filter isBorderRect pieces) = (if 0 < borderWidth opts then 1 else 0)"
    by blast
  from Suc.hyps(1)[OF k run Suc.prems(2)] i obtain rest
    where rest: "out = (svg @ pieces) @ rest"
      and rim: "length (filter isImageElement rest) = length imgs - Suc i"
      and rbd: "length (filter isBorderRect rest)
                  = (if 0 < borderWidth opts then length imgs - Suc i else 0)"
    by auto
  have "out = svg @ (pieces @ rest)" using rest by simp
  moreover have "length (filter isImageElement (pieces @ rest)) = length imgs - i"
    using im rim i by simp
  moreover have "length (filter isBorderRect (pieces @ rest))
                   = (if 0 < borderWidth opts then length imgs - i else 0)"
    using bd rbd i by (cases "0 < borderWidth opts") (simp_all add: Suc_diff_Suc)
  ultimately show ?case by blast
qed

text \<open>What a successful build consists of.\<close>

lemma buildGrid_Inr:
  assumes "buildGrid images options = Some (Inr grid)"
  obtains dims ps ic bc where
    "calculateActualDimensions options (length images) = Some dims"
    "calculateCellPositions (options\<lparr>rows := d_rows dims, height := d_height dims\<rparr>)
       (length images) = Some ps"
    "gridLoop (sort_key order images) ps options 0 [] [] = Inr (ic, bc)"
    "canvas_width grid = d_width dims" "canvas_height grid = d_height dims"
    "composites grid = ic @ bc"
proof -
  obtain dims where dims: "calculateActualDimensions options (length images) = Some dims"
    using assms
    by (cases "calculateActualDimensions options (length images)")
       (simp_all add: buildGrid_def Let_def)
  obtain ps where ps: "calculateCellPositions
       (options\<lparr>rows := d_rows dims, height := d_height dims\<rparr>) (length images) = Some ps"
    using assms dims
    by (cases "calculateCellPositions
                 (options\<lparr>rows := d_rows dims, height := d_height dims\<rparr>) (length images)")
       (simp_all add: buildGrid_def Let_def)
  obtain ic bc where loop: "gridLoop (sort_key order images) ps options 0 [] [] = Inr (ic, bc)"
    using assms dims ps
    by (cases "gridLoop (sort_key order images) ps options 0 [] []")
       (auto simp add: buildGrid_def Let_def)
  have "canvas_width grid = d_width dims" "canvas_height grid = d_height dims"
    "composites grid = ic @ bc"
    using assms dims ps loop by (auto simp add: buildGrid_def Let_def)
  with dims ps loop that show thesis by blast
qed

lemma buildGridSvg_Inr:
  assumes "buildGridSvg images options textOverlays = Some (Inr svg)"
  obtains dims ps background out where
    "calculateActualDimensions options (length images) = Some dims"
    "calculateCellPositions (options\<lparr>rows := d_rows dims, height := d_height dims\<rparr>)
       (length images) = Some ps"
    "background =
       (if backgroundColor options \<noteq> [] \<and> backgroundColor options \<noteq> ''transparent''
        then [BackgroundRect (d_width dims) (d_height dims) (backgroundColor options)] else [])"
    "svgLoop (sort_key order images) ps options 0
       ([SvgOpen (d_width dims) (d_height dims), DefsOpen] @ background) = Inr out"
    "svg = out @ [DefsClose]
           @ map (\<lambda>overlay. TextMarkup
                    (createTextSvgElement overlay (d_width dims) (d_height dims))) textOverlays
           @ [SvgClose]"
proof -
  obtain dims where dims: "calculateActualDimensions options (length images) = Some dims"
    using assms
    by (cases "calculateActualDimensions options (length images)")
       (simp_all add: buildGridSvg_def Let_def)
  obtain ps where ps: "calculateCellPositions
       (options\<lparr>rows := d_rows dims, height := d_height dims\<rparr>) (length images) = Some ps"
    using assms dims
    by (cases "calculateCellPositions
                 (options\<lparr>rows := d_rows dims, height := d_height dims\<rparr>) (length images)")
       (simp_all add: buildGridSvg_def Let_def)
  define background where "background =
    (if backgroundColor options \<noteq> [] \<and> backgroundColor options \<noteq> ''transparent''
     then [BackgroundRect (d_width dims) (d_height dims) (backgroundColor options)] else [])"
  obtain out where loop: "svgLoop (sort_key order images) ps options 0
       ([SvgOpen (d_width dims) (d_height dims), DefsOpen] @ background) = Inr out"
    using assms dims ps
    by (cases "svgLoop (sort_key order images) ps options 0
                 ([SvgOpen (d_width dims) (d_height dims), DefsOpen] @ background)")
       (auto simp add: buildGridSvg_def Let_def background_def split: if_splits)
  have "svg = out @ [DefsClose]
           @ map (\<lambda>overlay. TextMarkup
                    (createTextSvgElement overlay (d_width dims) (d_height dims))) textOverlays
           @ [SvgClose]"
    using assms dims ps loop
    by (auto simp add: buildGridSvg_def Let_def background_def split: if_splits)
  with dims ps background_def loop that show thesis by blast
qed

text \<open>The canvas of a raster grid is opaque: its alpha is 1 whatever the background colour.\<close>

lemma buildGrid_background:
  assumes "buildGrid images options = Some (Inr grid)"
  shows "canvas_background grid =
     (case hexToRgb (backgroundColor options) of
        Some c \<Rightarrow> \<lparr>bg_r = rgb_r c, bg_g = rgb_g c, bg_b = rgb_b c, bg_alpha = 1\<rparr>
      | None \<Rightarrow> \<lparr>bg_r = 255, bg_g = 255, bg_b = 255, bg_alpha = 1\<rparr>)"
  using assms
  by (auto simp add: buildGrid_def Let_def split: option.splits sum.splits)

lemma buildGrid_opaque:
  assumes "buildGrid images options = Some (Inr grid)"
  shows "bg_alpha (canvas_background grid) = 1"
  using buildGrid_background[OF assms] by (simp split: option.splits)

text \<open>One image in the bordered scenario grid, through both backends.\<close>

lemma borderedGrid:
  "buildGrid [wideImage] borderedOptions =
     Some (Inr \<lparr>canvas_width = 1080, canvas_height = 550,
                canvas_background = \<lparr>bg_r = 26, bg_g = 26, bg_b = 26, bg_alpha = 1\<rparr>,
                composites =
                  [\<lparr>comp_input = CellImage \<lparr>source = ImageData 600 200,
                                             fitted = ResizeFit Cover 504 504, mask = None\<rparr>,
                    comp_left = 23, comp_top = 23\<rparr>,
                   \<lparr>comp_input = CellBorder
                       \<lparr>border_totalWidth = 510, border_totalHeight = 510,
                        border_rectX = 3 / 2, border_rectY = 3 / 2,
                        border_rectWidth = 507, border_rectHeight = 507,
                        border_radius = 0, border_stroke = RgbPaint 255 255 255,
                        border_strokeWidth = 3\<rparr>,
                    comp_left = 20, comp_top = 20\<rparr>]\<rparr>)"
  by code_simp

lemma borderedSvg:
  "buildGridSvg [wideImage] borderedOptions [scenarioOverlay] =
     Some (Inr [SvgOpen 1080 550, DefsOpen, BackgroundRect 1080 550 ''#1a1a1a'',
                ImageElement 23 23 504 504
                  \<lparr>emb_source = ImageData 600 200, emb_width = 504, emb_height = 504,
                   emb_fit = FitOf Cover\<rparr> None,
                BorderRect (43 / 2) (43 / 2) 507 507 (3 / 2) ''#ffffff'' 3,
                DefsClose,
                TextMarkup
                  [\<lparr>text_x = 1080, text_y = 0, text_fontFamily = ''Arial, sans-serif'',
                    text_fontSize = 48, text_fontWeight = Bold, text_fill = Named ''#ffffff'',
                    text_stroke = None, text_anchor = ''end'', text_filter = None,
                    text_content = ''New Text''\<rparr>],
                SvgClose])"
  by code_simp

section \<open>Claims about the raster compositor\<close>

text \<open>
  C3, at an input where the code departs from it. With the background colour
  \<open>transparent\<close>, which \<open>hexToRgb\<close> does not parse, \<open>buildGrid\<close> creates a canvas whose
  background is white with alpha 1, not one with alpha 0. The input is one image in the
  scenario grid. By \<open>buildGrid_opaque\<close> no input gives a canvas with alpha 0.
\<close>

theorem C3_transparent_background_is_white:
  "buildGrid [wideImage] (scenarioOptions\<lparr>backgroundColor := ''transparent''\<rparr>) =
     Some (Inr \<lparr>canvas_width = 1080, canvas_height = 550,
                canvas_background = \<lparr>bg_r = 255, bg_g = 255, bg_b = 255, bg_alpha = 1\<rparr>,
                composites =
                  [\<lparr>comp_input = CellImage \<lparr>source = ImageData 600 200,
                                             fitted = ResizeFit Cover 510 510, mask = None\<rparr>,
                    comp_left = 20, comp_top = 20\<rparr>]\<rparr>)"
  by code_simp




text \<open>
  C9, as amended. With at least one column and a non-zero configured row count, a single
  undecodable image makes the whole build fail: \<open>buildGrid\<close> returns no grid, but the
  error of the image library for one of the undecodable images, which is a message.
\<close>

theorem C9_decode_failure_aborts:
  assumes "0 < cols options" and "rows options \<noteq> 0"
    and "img \<in> set images" and "buffer img = Undecodable m"
  shows "\<exists>bad \<in> set images. \<exists>m'. buffer bad = Undecodable m'
           \<and> buildGrid images options = Some (Inl (Error m'))"
proof -
  let ?sorted = "sort_key order images"
  let ?n = "length images"
  have n: "0 < ?n" using assms(3) by (cases images) auto
  have cols: "cols options \<noteq> 0" using assms(1) by simp
  from calculateActualDimensions_eq[OF cols assms(2), of ?n] obtain dims
    where dims: "calculateActualDimensions options ?n = Some dims" by blast
  have "calculateCellPositions (options\<lparr>rows := d_rows dims, height := d_height dims\<rparr>) ?n
          = calculateCellPositions options ?n"
    by (rule adjusted_positions[OF assms(1,2) n dims])
  with calculateCellPositions_eq[OF assms(1,2), of ?n] obtain ps
    where ps: "calculateCellPositions
                 (options\<lparr>rows := d_rows dims, height := d_height dims\<rparr>) ?n = Some ps"
      and len: "length ps = ?n"
    by simp
  from assms(3) have "img \<in> set ?sorted" by simp
  then obtain j where j: "j < length ?sorted" "?sorted ! j = img"
    using in_set_conv_nth[of img ?sorted] by blast
  have "length ?sorted \<le> length ps" using len by simp
  from gridLoop_fails[OF this _ j(1), of 0 m options "[]" "[]"] j(2) assms(4)
  obtain bad m' where bad: "bad \<in> set ?sorted" "buffer bad = Undecodable m'"
      and fails: "gridLoop ?sorted ps options 0 [] [] = Inl (Error m')"
    by auto
  have "buildGrid images options = Some (Inl (Error m'))"
    using dims ps fails by (simp add: buildGrid_def Let_def)
  with bad show ?thesis by auto
qed

text \<open>A decodable and an undecodable image in the scenario grid: the build fails.\<close>

theorem C9_decode_failure_aborts_witness:
  "buildGrid [wideImage, brokenImage] scenarioOptions =
     Some (Inl (Error ''Input buffer contains unsupported image format''))"
proof -
  have "0 < cols scenarioOptions" "rows scenarioOptions \<noteq> 0"
    by (simp_all add: scenarioOptions_def)
  moreover have "brokenImage \<in> set [wideImage, brokenImage]" by simp
  moreover have "buffer brokenImage = Undecodable ''Input buffer contains unsupported image format''"
    by (simp add: brokenImage_def)
  ultimately obtain bad m'
    where "bad \<in> set [wideImage, brokenImage]" "buffer bad = Undecodable m'"
      and fails: "buildGrid [wideImage, brokenImage] scenarioOptions = Some (Inl (Error m'))"
    using C9_decode_failure_aborts[of scenarioOptions brokenImage "[wideImage, brokenImage]"] by blast
  then have "m' = ''Input buffer contains unsupported image format''"
    by (auto simp add: wideImage_def brokenImage_def)
  with fails show ?thesis by simp
qed

text \<open>
  C9 as stated fails: the error carries no reference to the offending image. The build
  of \<open>[wideImage, brokenImage]\<close>, where the second image in order is undecodable, and the
  build of the same two buffers with the undecodable one first in order, fail with the
  same value, the library's message.
\<close>

theorem C9_error_names_no_image_counterexample:
  "buildGrid [wideImage, brokenImage] scenarioOptions =
     Some (Inl (Error ''Input buffer contains unsupported image format''))
   \<and> buildGrid [brokenImage\<lparr>order := 0\<rparr>, wideImage\<lparr>order := 1\<rparr>] scenarioOptions =
     Some (Inl (Error ''Input buffer contains unsupported image format''))"
  by code_simp

section \<open>Claims about the two backends together and the vector assembler\<close>

text \<open>
  C2. When both backends succeed on the same images and options, the opening \<open><svg>\<close>
  tag of the vector document (its first piece) declares as width and height the width
  and height of the canvas that the raster backend creates.
\<close>

theorem C2_svg_size_is_canvas_size:
  assumes "buildGrid images options = Some (Inr grid)"
    and "buildGridSvg images options textOverlays = Some (Inr svg)"
  shows "take 1 svg = [SvgOpen (canvas_width grid) (canvas_height grid)]"
  using assms(1)
proof (rule buildGrid_Inr)
  fix dims ps ic bc
  assume dims: "calculateActualDimensions options (length images) = Some dims"
    and grid: "canvas_width grid = d_width dims" "canvas_height grid = d_height dims"
  from assms(2) show ?thesis
  proof (rule buildGridSvg_Inr)
    fix dims' ps' background out
    assume dims': "calculateActualDimensions options (length images) = Some dims'"
      and loop: "svgLoop (sort_key order images) ps' options 0
                   ([SvgOpen (d_width dims') (d_height dims'), DefsOpen] @ background) = Inr out"
      and svg: "svg = out @ [DefsClose]
           @ map (\<lambda>overlay. TextMarkup
                    (createTextSvgElement overlay (d_width dims') (d_height dims'))) textOverlays
           @ [SvgClose]"
    from dims dims' have same: "dims' = dims" by simp
    from svgLoop_appends[OF loop] obtain rest
      where "out = ([SvgOpen (d_width dims') (d_height dims'), DefsOpen] @ background) @ rest"
      by blast
    with svg same grid show ?thesis by simp
  qed
qed

text \<open>One image in the bordered scenario grid: both backends give 1080 by 550.\<close>

theorem C2_svg_size_is_canvas_size_witness:
  "\<exists>grid svg. buildGrid [wideImage] borderedOptions = Some (Inr grid)
      \<and> buildGridSvg [wideImage] borderedOptions [scenarioOverlay] = Some (Inr svg)
      \<and> canvas_width grid = 1080 \<and> canvas_height grid = 550
      \<and> take 1 svg = [SvgOpen 1080 550]"
  using C2_svg_size_is_canvas_size[OF borderedGrid borderedSvg] borderedGrid borderedSvg by simp

text \<open>
  C10. Every document that \<open>buildGridSvg\<close> returns is the opening \<open><svg>\<close> tag,
  \<open><defs>\<close>, then pieces that draw the grid (background rectangle, clip paths, cell
  images, border rectangles), then \<open></defs>\<close>, then the markup of the text overlays in
  their order, then \<open></svg>\<close>. Between \<open><defs>\<close> and \<open></defs>\<close> lies the background
  rectangle of the canvas size, when the background colour is neither empty nor
  \<open>transparent\<close>, and, with at least one column, one \<open><image>\<close> per input image and one
  border \<open><rect>\<close> per input image when the border width is positive. So the background,
  every cell image and every border are emitted, and lie between \<open><defs>\<close> and
  \<open></defs>\<close>; of the drawn elements only the text overlays lie outside.
\<close>

theorem C10_grid_inside_defs:
  assumes "buildGridSvg images options textOverlays = Some (Inr svg)"
  shows "\<exists>w h inside.
           svg = [SvgOpen w h, DefsOpen] @ inside @ [DefsClose]
                 @ map (\<lambda>overlay. TextMarkup (createTextSvgElement overlay w h)) textOverlays
                 @ [SvgClose]
           \<and> list_all isGridPiece inside
           \<and> filter isBackgroundRect inside =
               (if backgroundColor options \<noteq> [] \<and> backgroundColor options \<noteq> ''transparent''
                then [BackgroundRect w h (backgroundColor options)] else [])
           \<and> (0 < cols options \<longrightarrow>
                 length (filter isImageElement inside) = length images
                 \<and> length (filter isBorderRect inside)
                     = (if 0 < borderWidth options then length images else 0))"
  using assms
proof (rule buildGridSvg_Inr)
  fix dims ps background out
  assume ps: "calculateCellPositions (options\<lparr>rows := d_rows dims, height := d_height dims\<rparr>)
                (length images) = Some ps"
    and background: "background =
       (if backgroundColor options \<noteq> [] \<and> backgroundColor options \<noteq> ''transparent''
        then [BackgroundRect (d_width dims) (d_height dims) (backgroundColor options)] else [])"
    and loop: "svgLoop (sort_key order images) ps options 0
                 ([SvgOpen (d_width dims) (d_height dims), DefsOpen] @ background) = Inr out"
    and svg: "svg = out @ [DefsClose]
         @ map (\<lambda>overlay. TextMarkup
                  (createTextSvgElement overlay (d_width dims) (d_height dims))) textOverlays
         @ [SvgClose]"
  let ?start = "[SvgOpen (d_width dims) (d_height dims), DefsOpen] @ background"
  from svgLoop_appends[OF loop] obtain rest
    where out: "out = ?start @ rest" and rest: "list_all isGridPiece rest"
      and nobg: "filter isBackgroundRect rest = []"
    by blast
  have doc: "svg = [SvgOpen (d_width dims) (d_height dims), DefsOpen] @ (background @ rest)
              @ [DefsClose]
              @ map (\<lambda>overlay. TextMarkup
                       (createTextSvgElement overlay (d_width dims) (d_height dims))) textOverlays
              @ [SvgClose]"
    unfolding svg out by simp
  have bgpiece: "list_all isGridPiece background"
    "filter isBackgroundRect background = background"
    "filter isImageElement background = []" "filter isBorderRect background = []"
    by (simp_all add: background isGridPiece_def isBackgroundRect_def isImageElement_def
          isBorderRect_def)
  have grid: "list_all isGridPiece (background @ rest)"
    using bgpiece(1) rest by simp
  have bg: "filter isBackgroundRect (background @ rest) =
      (if backgroundColor options \<noteq> [] \<and> backgroundColor options \<noteq> ''transparent''
       then [BackgroundRect (d_width dims) (d_height dims) (backgroundColor options)] else [])"
    using bgpiece(2) nobg background by simp
  have counted: "length (filter isImageElement (background @ rest)) = length images
      \<and> length (filter isBorderRect (background @ rest))
          = (if 0 < borderWidth options then length images else 0)"
    if cols: "0 < cols options"
  proof -
    have "length ps = length images"
      using calculateCellPositions_length[OF ps] cols by simp
    then have "length (sort_key order images) \<le> length ps" by simp
    from svgLoop_counts[OF loop this] obtain rest'
      where "out = ?start @ rest'"
        and "length (filter isImageElement rest') = length (sort_key order images) - 0"
        and "length (filter isBorderRect rest')
               = (if 0 < borderWidth options then length (sort_key order images) - 0 else 0)"
      by auto
    with out bgpiece(3,4) show ?thesis by simp
  qed
  have count: "0 < cols options \<longrightarrow>
      length (filter isImageElement (background @ rest)) = length images
      \<and> length (filter isBorderRect (background @ rest))
          = (if 0 < borderWidth options then length images else 0)"
    using counted by blast
  show ?thesis
    apply (rule exI[of _ "d_width dims"], rule exI[of _ "d_height dims"])
    apply (rule exI[of _ "background @ rest"])
    apply (intro conjI)
       apply (rule doc)
      apply (rule grid)
     apply (rule bg)
    apply (rule count)
    done
qed

text \<open>
  One image in the bordered scenario grid with the scenario overlay: the background, one
  image and one border inside \<open><defs>\<close>, the text after \<open></defs>\<close>.
\<close>

theorem C10_grid_inside_defs_witness:
  "\<exists>svg w h inside.
      buildGridSvg [wideImage] borderedOptions [scenarioOverlay] = Some (Inr svg)
      \<and> svg = [SvgOpen w h, DefsOpen] @ inside @ [DefsClose]
               @ map (\<lambda>overlay. TextMarkup (createTextSvgElement overlay w h)) [scenarioOverlay]
               @ [SvgClose]
      \<and> list_all isGridPiece inside
      \<and> filter isBackgroundRect inside = [BackgroundRect w h ''#1a1a1a'']
      \<and> length (filter isImageElement inside) = 1
      \<and> length (filter isBorderRect inside) = 1"
proof -
  have options: "0 < cols borderedOptions" "0 < borderWidth borderedOptions"
    "backgroundColor borderedOptions = ''#1a1a1a''"
    by (simp_all add: borderedOptions_def scenarioOptions_def)
  obtain svg
    where svg: "buildGridSvg [wideImage] borderedOptions [scenarioOverlay] = Some (Inr svg)"
    using borderedSvg by blast
  from C10_grid_inside_defs[OF svg] obtain w h inside
    where doc: "svg = [SvgOpen w h, DefsOpen] @ inside @ [DefsClose]
               @ map (\<lambda>overlay. TextMarkup (createTextSvgElement overlay w h)) [scenarioOverlay]
               @ [SvgClose]"
      and grid: "list_all isGridPiece inside"
      and bg: "filter isBackgroundRect inside =
               (if backgroundColor borderedOptions \<noteq> []
                   \<and> backgroundColor borderedOptions \<noteq> ''transparent''
                then [BackgroundRect w h (backgroundColor borderedOptions)] else [])"
      and count: "0 < cols borderedOptions \<longrightarrow>
                 length (filter isImageElement inside) = length [wideImage]
                 \<and> length (filter isBorderRect inside)
                     = (if 0 < borderWidth borderedOptions then length [wideImage] else 0)"
    by (elim exE conjE) (rule that)
  have bg': "filter isBackgroundRect inside = [BackgroundRect w h ''#1a1a1a'']"
    using bg by (simp add: options)
  have count': "length (filter isImageElement inside) = 1"
    "length (filter isBorderRect inside) = 1"
    using count options by simp_all
  show ?thesis
    apply (rule exI[of _ svg], rule exI[of _ w], rule exI[of _ h], rule exI[of _ inside])
    apply (intro conjI)
         apply (rule svg)
        apply (rule doc)
       apply (rule grid)
      apply (rule bg')
     apply (rule count')
    apply (rule count')
    done
qed

end
